theory Spec2Isabelle
  imports Complex_Main "HOL-Library.Char_ord" "HOL-Library.List_Lexorder" "HOL-Library.Multiset"
begin

section \<open>The external libraries\<close>

text \<open>
  accent.js computes with four third-party packages: Spectra (colour objects), delta-e
  (CIEDE2000), wcag-contrast and mathjs. Their code is not part of the program, so the colour
  library is a parameter of every function below: a record of the operations the program calls,
  over an arbitrary type \<open>'c\<close> of colour objects. JavaScript numbers are modelled as reals; the
  program only compares the libraries' results, apart from the averages of a median.
\<close>

record labObject =
  lab_l :: real
  lab_a :: real
  lab_b :: real

record Lab =
  Lab_L :: real
  Lab_A :: real
  Lab_B :: real

record 'c colorlib =
  Spectra :: "string \<Rightarrow> 'c"                 \<comment> \<open>\<open>Spectra(hexString)\<close>\<close>
  hex :: "'c \<Rightarrow> string"                     \<comment> \<open>\<open>color.hex()\<close>\<close>
  rgbNumber :: "'c \<Rightarrow> int"                  \<comment> \<open>\<open>color.rgbNumber()\<close>\<close>
  luma :: "'c \<Rightarrow> real"                      \<comment> \<open>\<open>color.luma()\<close>\<close>
  labObject :: "'c \<Rightarrow> labObject"            \<comment> \<open>\<open>color.labObject()\<close>\<close>
  toString :: "'c \<Rightarrow> string"                \<comment> \<open>\<open>String(color)\<close>, as property keys and the default sort use it\<close>
  getDeltaE00 :: "Lab \<Rightarrow> Lab \<Rightarrow> real"       \<comment> \<open>\<open>DeltaE.getDeltaE00\<close>\<close>
  Contrast_hex :: "string \<Rightarrow> string \<Rightarrow> real" \<comment> \<open>\<open>Contrast.hex\<close>\<close>
  jsonColor :: "'c \<Rightarrow> string"               \<comment> \<open>the \<open>color\<close> field \<open>JSON.stringify\<close> writes for a colour\<close>

datatype js_error =
    TypeError          \<comment> \<open>a property of \<open>undefined\<close> is set\<close>
  | EmptyArrayError    \<comment> \<open>mathjs refuses the median, minimum or maximum of an empty array\<close>

subsection \<open>mathjs: median, min, max\<close>

definition math_median :: "real list \<Rightarrow> js_error + real" where
  "math_median xs =
     (if xs = [] then Inl EmptyArrayError
      else let s = sort xs; n = length s; mid = n div 2
           in if odd n then Inr (s ! mid) else Inr ((s ! (mid - 1) + s ! mid) / 2))"

definition math_min :: "real list \<Rightarrow> js_error + real" where
  "math_min xs = (case xs of [] \<Rightarrow> Inl EmptyArrayError | x # r \<Rightarrow> Inr (fold min r x))"

definition math_max :: "real list \<Rightarrow> js_error + real" where
  "math_max xs = (case xs of [] \<Rightarrow> Inl EmptyArrayError | x # r \<Rightarrow> Inr (fold max r x))"

text \<open>\<open>Math.round\<close> rounds to the nearest integer, a tie towards plus infinity.\<close>

definition Math_round :: "real \<Rightarrow> int" where
  "Math_round x = \<lfloor>x + 1 / 2\<rfloor>"

text \<open>\<open>deltas.indexOf(max)\<close>: the first index holding the value, \<open>-1\<close> when there is none.\<close>

fun indexOf :: "real list \<Rightarrow> real \<Rightarrow> int" where
  "indexOf [] v = -1"
| "indexOf (x # xs) v = (if x = v then 0 else (let i = indexOf xs v in if i < 0 then -1 else i + 1))"

section \<open>Utilities of accent.js\<close>

definition toLab :: "'c colorlib \<Rightarrow> 'c \<Rightarrow> Lab" where
  "toLab lib color =
     (let result = labObject lib color
      in \<lparr>Lab_L = lab_l result, Lab_A = lab_a result, Lab_B = lab_b result\<rparr>)"

text \<open>The composition the program always uses: the Delta E of two colour objects.\<close>

definition deltaE :: "'c colorlib \<Rightarrow> 'c \<Rightarrow> 'c \<Rightarrow> real" where
  "deltaE lib c d = getDeltaE00 lib (toLab lib c) (toLab lib d)"

text \<open>\<open>Number.prototype.toString(16)\<close> on an integer.\<close>

definition hexDigit :: "nat \<Rightarrow> char" where
  "hexDigit d = ''0123456789abcdef'' ! d"

function toString16_nat :: "nat \<Rightarrow> string" where
  "toString16_nat n =
     (if n < 16 then [hexDigit n] else toString16_nat (n div 16) @ [hexDigit (n mod 16)])"
  by pat_completeness auto
termination
  by (relation "measure (\<lambda>n. n)") auto

declare toString16_nat.simps [simp del]

definition toString16 :: "int \<Rightarrow> string" where
  "toString16 n =
     (if n < 0 then CHR ''-'' # toString16_nat (nat (- n)) else toString16_nat (nat n))"

text \<open>The loop \<open>while (hex.length < 6) { hex = '0' + hex; }\<close>.\<close>

function padHex :: "string \<Rightarrow> string" where
  "padHex h = (if length h < 6 then padHex (CHR ''0'' # h) else h)"
  by pat_completeness auto
termination
  by (relation "measure (\<lambda>h. 6 - length h)") auto

declare padHex.simps [simp del]

definition rgbNumberToHex :: "int \<Rightarrow> string" where
  "rgbNumberToHex n = CHR ''#'' # padHex (toString16 n)"

text \<open>
  \<open>between(value, minimum, maximum, ref)\<close>. The optional fourth argument is an object with
  the fields \<open>value\<close> and \<open>margin\<close>; no call of the program passes it.
\<close>

record between_ref =
  ref_value :: real
  ref_margin :: real

definition between :: "real \<Rightarrow> real \<Rightarrow> real \<Rightarrow> between_ref option \<Rightarrow> bool" where
  "between v minimum maximum ref =
     (let (low, high) =
        (case ref of
           None \<Rightarrow> (minimum, maximum)
         | Some r \<Rightarrow>
             (let refValue = ref_value r;
                  margin = ref_margin r / 100;
                  low0 = refValue - (refValue * margin);
                  low1 = (if low0 < minimum then minimum else low0);
                  high0 = refValue + (refValue * margin);
                  high1 = (if high0 > maximum then maximum else high0)
              in (low1, high1)))
      in (v > low) \<and> (v < high))"

definition tooClose :: "'c colorlib \<Rightarrow> int \<Rightarrow> 'c \<Rightarrow> bool" where
  "tooClose lib currentRGBNumber barrierColor =
     (let color = Spectra lib (rgbNumberToHex currentRGBNumber)
      in deltaE lib color barrierColor < 2)"

section \<open>The global state\<close>

text \<open>
  The statistics pass writes four running bounds and the table \<open>baseColorsData\<close>;
  \<open>refDeltaE\<close> is computed once from the base colours.
\<close>

record globals =
  refMinBlackDeltaE :: real
  refMinWhiteDeltaE :: real
  refMinLuma :: real
  refMaxLuma :: real
  refDeltaE :: real
  baseColorsData :: "string \<rightharpoonup> (string \<rightharpoonup> real)"

definition black :: "'c colorlib \<Rightarrow> 'c" where
  "black lib = Spectra lib ''#000000''"

definition white :: "'c colorlib \<Rightarrow> 'c" where
  "white lib = Spectra lib ''#ffffff''"

section \<open>The candidate analyzer\<close>

definition analyze :: "'c colorlib \<Rightarrow> globals \<Rightarrow> int \<Rightarrow> 'c option" where
  "analyze lib g rgb =
     (let color = Spectra lib (rgbNumberToHex rgb);
          colorHex = hex lib color;
          whiteContrast = Contrast_hex lib colorHex ''#ffffff''
      in if \<not> between whiteContrast 3 21 None then None
         else let blackContrast = Contrast_hex lib colorHex ''#000000''
         in if \<not> between blackContrast 3 21 None then None
         else let whiteDeltaE = deltaE lib color (white lib)
         in if \<not> between whiteDeltaE (refMinWhiteDeltaE g) 100 None then None
         else let blackDeltaE = deltaE lib color (black lib)
         in if \<not> between blackDeltaE (refMinBlackDeltaE g) 100 None then None
         else if \<not> between (luma lib color) (refMinLuma g) (refMaxLuma g) None then None
         else Some color)"

definition hasGoodDeltaAll :: "'c colorlib \<Rightarrow> globals \<Rightarrow> 'c \<Rightarrow> 'c list \<Rightarrow> real \<Rightarrow> bool" where
  "hasGoodDeltaAll lib g color arr threshold =
     (\<not> list_ex (\<lambda>otherColor.
          deltaE lib color otherColor < (if threshold \<noteq> 0 then threshold else refDeltaE g)) arr)"

section \<open>Round 1: the space sampler\<close>


definition samplesOf :: "'c colorlib \<Rightarrow> 'c \<Rightarrow> 'c \<Rightarrow> int" where
  "samplesOf lib start end = Math_round (real_of_int (rgbNumber lib end - rgbNumber lib start) / 2)"

definition middleOf :: "'c colorlib \<Rightarrow> 'c \<Rightarrow> 'c \<Rightarrow> int" where
  "middleOf lib start end = rgbNumber lib start + samplesOf lib start end"






text \<open>
  The values handed to \<open>analyze\<close> for one pair, in the words of the specification: the midpoint,
  then \<open>m + j\<close> and \<open>m - j\<close> for the offsets \<open>j = 1, 2, \<dots>\<close> below \<open>samples\<close>, up to the first
  offset at which \<open>m - j\<close> is too close to \<open>start\<close>.
\<close>

definition expansionOffsets :: "'c colorlib \<Rightarrow> 'c \<Rightarrow> int \<Rightarrow> int \<Rightarrow> int \<Rightarrow> int list" where
  "expansionOffsets lib start middle samples j =
     takeWhile (\<lambda>k. \<not> tooClose lib (middle - k) start) [j..samples - 1]"

definition offsetSamples :: "int \<Rightarrow> int list \<Rightarrow> int list" where
  "offsetSamples middle js = concat (map (\<lambda>k. [middle + k, middle - k]) js)"

definition pairSamples :: "'c colorlib \<Rightarrow> 'c \<Rightarrow> 'c \<Rightarrow> int list" where
  "pairSamples lib start end =
     (let samples = samplesOf lib start end; middle = middleOf lib start end
      in middle # offsetSamples middle (expansionOffsets lib start middle samples 1))"

section \<open>The statistics pass\<close>

text \<open>
  \<open>process(metric, measureFn, updateRelatedFn)\<close> returns a closure over the globals; the model
  passes the globals through. \<open>baseColorsData[color][metric] = result\<close> converts the colour
  object to a property key and throws a TypeError when the table has no entry under that key.
\<close>

definition process ::
  "'c colorlib \<Rightarrow> string \<Rightarrow> ('c \<Rightarrow> real) \<Rightarrow> (real \<Rightarrow> globals \<Rightarrow> globals) option \<Rightarrow>
     'c \<Rightarrow> globals \<Rightarrow> js_error + (real \<times> globals)" where
  "process lib metric measureFn updateRelatedFn color g =
     (let result = measureFn color;
          colorHex = hex lib color;
          g1 = (case updateRelatedFn of
                  Some upd \<Rightarrow>
                    if colorHex \<noteq> ''#000000'' \<and> colorHex \<noteq> ''#ffffff'' then upd result g else g
                | None \<Rightarrow> g)
      in case baseColorsData g1 (toString lib color) of
           None \<Rightarrow> Inl TypeError
         | Some entry \<Rightarrow>
             Inr (result,
                  g1\<lparr>baseColorsData :=
                       (baseColorsData g1)(toString lib color \<mapsto> entry(metric \<mapsto> result))\<rparr>))"

text \<open>\<open>baseColors.map(color => processFn(color))\<close>, the globals threaded from left to right.\<close>

primrec mapProcess ::
  "('c \<Rightarrow> globals \<Rightarrow> js_error + (real \<times> globals)) \<Rightarrow> 'c list \<Rightarrow> globals \<Rightarrow>
     js_error + (real list \<times> globals)" where
  "mapProcess processFn [] g = Inr ([], g)"
| "mapProcess processFn (color # rest) g =
     (case processFn color g of
        Inl e \<Rightarrow> Inl e
      | Inr (result, g1) \<Rightarrow>
          (case mapProcess processFn rest g1 of
             Inl e \<Rightarrow> Inl e
           | Inr (results, g2) \<Rightarrow> Inr (result # results, g2)))"

definition calcMedian ::
  "('c \<Rightarrow> globals \<Rightarrow> js_error + (real \<times> globals)) \<Rightarrow> 'c list \<Rightarrow> globals \<Rightarrow>
     js_error + (real \<times> globals)" where
  "calcMedian processFn baseColors g =
     (case mapProcess processFn baseColors g of
        Inl e \<Rightarrow> Inl e
      | Inr (results, g1) \<Rightarrow>
          (case math_median results of Inl e \<Rightarrow> Inl e | Inr m \<Rightarrow> Inr (m, g1)))"

text \<open>A \<open>map\<close> whose function may throw.\<close>

primrec mapE :: "('a \<Rightarrow> js_error + 'b) \<Rightarrow> 'a list \<Rightarrow> js_error + 'b list" where
  "mapE f [] = Inr []"
| "mapE f (x # xs) =
     (case f x of
        Inl e \<Rightarrow> Inl e
      | Inr y \<Rightarrow> (case mapE f xs of Inl e \<Rightarrow> Inl e | Inr ys \<Rightarrow> Inr (y # ys)))"

text \<open>The three update callbacks of the statistics pass.\<close>

definition updateMinBlackDeltaE :: "real \<Rightarrow> globals \<Rightarrow> globals" where
  "updateMinBlackDeltaE v g = (if v < refMinBlackDeltaE g then g\<lparr>refMinBlackDeltaE := v\<rparr> else g)"

definition updateMinWhiteDeltaE :: "real \<Rightarrow> globals \<Rightarrow> globals" where
  "updateMinWhiteDeltaE v g = (if v < refMinWhiteDeltaE g then g\<lparr>refMinWhiteDeltaE := v\<rparr> else g)"

definition updateLuma :: "real \<Rightarrow> globals \<Rightarrow> globals" where
  "updateLuma v g =
     (let g1 = (if v < refMinLuma g then g\<lparr>refMinLuma := v\<rparr> else g)
      in if v > refMaxLuma g1 then g1\<lparr>refMaxLuma := v\<rparr> else g1)"

text \<open>
  The globals before the pass: the four bounds as initialised, and one empty entry of
  \<open>baseColorsData\<close> under the hex code of every base colour (the callback of
  \<open>loadColorsFile\<close>).
\<close>

definition initialGlobals :: "'c colorlib \<Rightarrow> 'c list \<Rightarrow> globals" where
  "initialGlobals lib baseColors =
     \<lparr>refMinBlackDeltaE = 100, refMinWhiteDeltaE = 100, refMinLuma = 255, refMaxLuma = 0,
      refDeltaE = 0,
      baseColorsData = fold (\<lambda>color m. m(hex lib color \<mapsto> Map.empty)) baseColors Map.empty\<rparr>"

text \<open>
  The pass itself, in the order of the program: the medians \<open>refBlackDeltaE\<close>,
  \<open>refWhiteDeltaE\<close> and \<open>refLuma\<close> are returned beside the globals.
\<close>

definition statistics :: "'c colorlib \<Rightarrow> 'c list \<Rightarrow> js_error + ((real \<times> real \<times> real) \<times> globals)" where
  "statistics lib baseColors =
     (case calcMedian
             (process lib ''blackDeltaE'' (\<lambda>color. deltaE lib color (black lib))
                (Some updateMinBlackDeltaE))
             baseColors (initialGlobals lib baseColors) of
        Inl e \<Rightarrow> Inl e
      | Inr (refBlackDeltaE, g1) \<Rightarrow>
     (case calcMedian
             (process lib ''whiteDeltaE'' (\<lambda>color. deltaE lib color (white lib))
                (Some updateMinWhiteDeltaE))
             baseColors g1 of
        Inl e \<Rightarrow> Inl e
      | Inr (refWhiteDeltaE, g2) \<Rightarrow>
     (case mapE (\<lambda>color. math_median (map (\<lambda>baseColor. deltaE lib color baseColor) baseColors))
             baseColors of
        Inl e \<Rightarrow> Inl e
      | Inr medians \<Rightarrow>
     (case math_median medians of
        Inl e \<Rightarrow> Inl e
      | Inr d \<Rightarrow>
     (case calcMedian (process lib ''luma'' (luma lib) (Some updateLuma))
             baseColors (g2\<lparr>refDeltaE := d\<rparr>) of
        Inl e \<Rightarrow> Inl e
      | Inr (refLuma, g3) \<Rightarrow> Inr ((refBlackDeltaE, refWhiteDeltaE, refLuma), g3))))))"

text \<open>A base colour takes part in the running bounds unless it is pure black or pure white.\<close>

definition tracked :: "'c colorlib \<Rightarrow> 'c \<Rightarrow> bool" where
  "tracked lib color = (hex lib color \<noteq> ''#000000'' \<and> hex lib color \<noteq> ''#ffffff'')"

section \<open>Rounds 2 and 3: adaptive threshold and consolidation\<close>

definition adjustDelta :: "'c colorlib \<Rightarrow> 'c list \<Rightarrow> 'c list \<Rightarrow> js_error + real" where
  "adjustDelta lib source ref =
     (case mapE (\<lambda>color. math_min (map (\<lambda>refColor. deltaE lib color refColor) ref)) source of
        Inl e \<Rightarrow> Inl e
      | Inr mins \<Rightarrow> math_median mins)"

definition runRound ::
  "'c colorlib \<Rightarrow> 'c list \<Rightarrow> 'c list \<Rightarrow>
     ('c list \<Rightarrow> 'c list \<Rightarrow> real \<Rightarrow> 'c list \<Rightarrow> js_error + 'c list) \<Rightarrow> js_error + 'c list" where
  "runRound lib source ref callback =
     (let selected = []
      in case adjustDelta lib source ref of
           Inl e \<Rightarrow> Inl e
         | Inr refDelta \<Rightarrow> callback source ref refDelta selected)"

text \<open>
  The first loop of \<open>consolidate\<close>, \<open>for (var i = 0; i < arr.length; i += 2)\<close>, on the part of
  the array that starts at index \<open>i\<close>. It returns \<open>groups\<close> and the group still open
  (\<open>grp\<close> stands for the variable \<open>group\<close>).
\<close>

function groupPairs ::
  "'c colorlib \<Rightarrow> real \<Rightarrow> 'c list \<Rightarrow> 'c list \<Rightarrow> 'c list list \<Rightarrow> 'c list list \<times> 'c list" where
  "groupPairs lib refDelta [] grp groups = (groups, grp)"
| "groupPairs lib refDelta [color] grp groups = (groups, grp @ [color])"
| "groupPairs lib refDelta (color # nextColor # rest) grp groups =
     (let group1 = grp @ [color];
          delta = deltaE lib color nextColor
      in if delta > refDelta
         then groupPairs lib refDelta rest [nextColor] (groups @ [group1])
         else groupPairs lib refDelta rest (group1 @ [nextColor]) groups)"
  by pat_completeness auto
termination
  by (relation "measure (\<lambda>(lib, refDelta, arr, grp, groups). length arr)") auto

text \<open>
  \<open>group[deltas.indexOf(max)]\<close>. The index is \<open>-1\<close> only when \<open>max\<close> is no element of
  \<open>deltas\<close>; the element is then \<open>undefined\<close>, which the model reports as an error of its own.
\<close>

definition elementAt :: "'c list \<Rightarrow> int \<Rightarrow> 'c option" where
  "elementAt xs i = (if 0 \<le> i \<and> i < int (length xs) then Some (xs ! nat i) else None)"

datatype consolidate_error = Thrown js_error | UndefinedRepresentative

definition representative :: "'c colorlib \<Rightarrow> 'c list \<Rightarrow> 'c list \<Rightarrow> consolidate_error + 'c" where
  "representative lib ref grp =
     (case mapE (\<lambda>color. math_median (map (\<lambda>c. deltaE lib color c) ref)) grp of
        Inl e \<Rightarrow> Inl (Thrown e)
      | Inr deltas \<Rightarrow>
          (case math_max deltas of
             Inl e \<Rightarrow> Inl (Thrown e)
           | Inr mx \<Rightarrow>
               (case elementAt grp (indexOf deltas mx) of
                  None \<Rightarrow> Inl UndefinedRepresentative
                | Some color \<Rightarrow> Inr color)))"

primrec representatives ::
  "'c colorlib \<Rightarrow> 'c list \<Rightarrow> 'c list list \<Rightarrow> consolidate_error + 'c list" where
  "representatives lib ref [] = Inr []"
| "representatives lib ref (grp # groups) =
     (case representative lib ref grp of
        Inl e \<Rightarrow> Inl e
      | Inr color \<Rightarrow>
          (case representatives lib ref groups of
             Inl e \<Rightarrow> Inl e
           | Inr classified \<Rightarrow> Inr (color # classified)))"

text \<open>
  \<open>arr.sort()\<close> has no comparison function: it orders the elements by their conversions to
  strings.
\<close>

definition consolidate :: "'c colorlib \<Rightarrow> 'c list \<Rightarrow> 'c list \<Rightarrow> real \<Rightarrow> consolidate_error + 'c list" where
  "consolidate lib arr ref refDelta =
     (let sorted = sort_key (toString lib) arr;
          groups = fst (groupPairs lib refDelta sorted [] [])
      in representatives lib ref groups)"

section \<open>The cache\<close>

text \<open>
  The file system maps a path to the parsed content of a cache file: the values of the
  \<open>color\<close> fields of its array, in order.
\<close>

type_synonym files = "string \<rightharpoonup> string list"

definition cachePath :: "string \<Rightarrow> string" where
  "cachePath ident = ''./cache-'' @ ident @ ''.json''"

definition memoize ::
  "'c colorlib \<Rightarrow> files \<Rightarrow> string \<Rightarrow> ('a \<Rightarrow> js_error + 'c list) \<Rightarrow> 'a \<Rightarrow>
     js_error + ('c list \<times> files)" where
  "memoize lib fs ident callback args =
     (case fs (cachePath ident) of
        Some loaded \<Rightarrow> Inr (map (Spectra lib) loaded, fs)
      | None \<Rightarrow>
          (case callback args of
             Inl e \<Rightarrow> Inl e
           | Inr result \<Rightarrow> Inr (result, fs(cachePath ident \<mapsto> map (jsonColor lib) result))))"

section \<open>Auxiliary notions\<close>

text \<open>
  The five acceptance tests of \<open>analyze\<close> with strict bounds, and the same tests with the
  closed bands \<open>[3, 21]\<close>, \<open>[min, 100]\<close> and \<open>[minLuma, maxLuma]\<close>.
\<close>

definition openBandsPass :: "'c colorlib \<Rightarrow> globals \<Rightarrow> int \<Rightarrow> bool" where
  "openBandsPass lib g rgb =
     (let color = Spectra lib (rgbNumberToHex rgb);
          whiteContrast = Contrast_hex lib (hex lib color) ''#ffffff'';
          blackContrast = Contrast_hex lib (hex lib color) ''#000000'';
          whiteDeltaE = deltaE lib color (white lib);
          blackDeltaE = deltaE lib color (black lib)
      in 3 < whiteContrast \<and> whiteContrast < 21 \<and>
         3 < blackContrast \<and> blackContrast < 21 \<and>
         refMinWhiteDeltaE g < whiteDeltaE \<and> whiteDeltaE < 100 \<and>
         refMinBlackDeltaE g < blackDeltaE \<and> blackDeltaE < 100 \<and>
         refMinLuma g < luma lib color \<and> luma lib color < refMaxLuma g)"

definition closedBandsPass :: "'c colorlib \<Rightarrow> globals \<Rightarrow> int \<Rightarrow> bool" where
  "closedBandsPass lib g rgb =
     (let color = Spectra lib (rgbNumberToHex rgb);
          whiteContrast = Contrast_hex lib (hex lib color) ''#ffffff'';
          blackContrast = Contrast_hex lib (hex lib color) ''#000000'';
          whiteDeltaE = deltaE lib color (white lib);
          blackDeltaE = deltaE lib color (black lib)
      in 3 \<le> whiteContrast \<and> whiteContrast \<le> 21 \<and>
         3 \<le> blackContrast \<and> blackContrast \<le> 21 \<and>
         refMinWhiteDeltaE g \<le> whiteDeltaE \<and> whiteDeltaE \<le> 100 \<and>
         refMinBlackDeltaE g \<le> blackDeltaE \<and> blackDeltaE \<le> 100 \<and>
         refMinLuma g \<le> luma lib color \<and> luma lib color \<le> refMaxLuma g)"

text \<open>An update callback that neither changes nor reads \<open>baseColorsData\<close>.\<close>

definition tableFree :: "(real \<Rightarrow> globals \<Rightarrow> globals) \<Rightarrow> bool" where
  "tableFree upd =
     (\<forall>v g D. upd v (g\<lparr>baseColorsData := D\<rparr>) = (upd v g)\<lparr>baseColorsData := D\<rparr>)"

text \<open>The number \<open>n\<close> in exactly \<open>k\<close> hexadecimal digits.\<close>

primrec fixedHex :: "nat \<Rightarrow> nat \<Rightarrow> string" where
  "fixedHex 0 n = []"
| "fixedHex (Suc k) n = fixedHex k (n div 16) @ [hexDigit (n mod 16)]"

section \<open>A sample colour library\<close>

text \<open>
  An instance of the library on colours as RGB numbers, in rational arithmetic: luma from the
  three channels, lightness proportional to luma, Delta E as the difference of lightness, and
  the contrast ratio of two luminances, a luminance being the square of the luma scaled to
  \<open>[0, 1]\<close> (a gamma of 2 in place of the 2.4 of sRGB). It gives black and white the values the
  real libraries give them (Delta E 100, contrast ratio 21, luma 0 and 255) and serves to
  run the program on concrete inputs.
\<close>

definition sampleHexValue :: "char \<Rightarrow> int" where
  "sampleHexValue ch = int (length (takeWhile (\<lambda>d. d \<noteq> ch) ''0123456789abcdef''))"

definition sampleParse :: "string \<Rightarrow> int" where
  "sampleParse s = foldl (\<lambda>acc ch. acc * 16 + sampleHexValue ch) 0 (tl s)"

definition sampleLuma :: "int \<Rightarrow> real" where
  "sampleLuma c =
     (2126 * real_of_int (c div 65536) + 7152 * real_of_int (c div 256 mod 256)
        + 722 * real_of_int (c mod 256)) / 10000"

definition sampleContrast :: "string \<Rightarrow> string \<Rightarrow> real" where
  "sampleContrast s t =
     (let u = sampleLuma (sampleParse s) / 255; v = sampleLuma (sampleParse t) / 255;
          x = u * u; y = v * v
      in (max x y + 5 / 100) / (min x y + 5 / 100))"

definition sampleLib :: "int colorlib" where
  "sampleLib =
     \<lparr>Spectra = sampleParse,
      hex = rgbNumberToHex,
      rgbNumber = (\<lambda>c. c),
      luma = sampleLuma,
      labObject = (\<lambda>c. \<lparr>lab_l = sampleLuma c * 100 / 255, lab_a = 0, lab_b = 0\<rparr>),
      toString = rgbNumberToHex,
      getDeltaE00 = (\<lambda>x y. \<bar>Lab_L x - Lab_L y\<bar>),
      Contrast_hex = sampleContrast,
      jsonColor = rgbNumberToHex\<rparr>"

section \<open>Properties of Round 1\<close>

lemma Math_round_half: "Math_round (real_of_int d / 2) = (d + 1) div 2"
proof -
  have "real_of_int d / 2 + 1 / 2 = real_of_int (d + 1) / real_of_int 2"
    by (simp add: add_divide_distrib)
  then show ?thesis
    unfolding Math_round_def by (simp only: floor_divide_of_int_eq)
qed

lemma round_half_up_div: "((d::int) + 1) div 2 = d div 2 + d mod 2"
  by presburger

lemma samplesOf_eq:
  "samplesOf lib start end = (rgbNumber lib end - rgbNumber lib start + 1) div 2"
  unfolding samplesOf_def by (rule Math_round_half)




text \<open>
  Claim C5, as the program has it. The first value sampled for a pair is the midpoint
  \<open>start + Math.round((end - start) / 2)\<close>: the floor of half the difference when the
  difference of the two RGB numbers is even, and one more when it is odd.
\<close>

theorem middleOf_rounds_half_up:
  "hd (pairSamples lib start end) = middleOf lib start end \<and>
   middleOf lib start end =
     rgbNumber lib start + (rgbNumber lib end - rgbNumber lib start) div 2
       + (rgbNumber lib end - rgbNumber lib start) mod 2"
  by (simp add: pairSamples_def Let_def middleOf_def samplesOf_eq round_half_up_div)

text \<open>
  Between black and white the difference is odd, and the midpoint is \<open>0x800000\<close>, not the
  \<open>0x7fffff\<close> of \<open>start + floor((end - start) / 2)\<close>.
\<close>

theorem middleOf_floor_counterexample:
  "middleOf sampleLib 0 16777215 \<noteq>
     rgbNumber sampleLib 0 + (rgbNumber sampleLib 16777215 - rgbNumber sampleLib 0) div 2"
  by (simp add: middleOf_def samplesOf_eq sampleLib_def)


section \<open>The candidate analyzer\<close>

text \<open>
  Claim C3, as the program has it. \<open>analyze\<close> returns the constructed colour when all five
  tests pass with strict bounds, and the absent value otherwise; it has no other result.
\<close>

theorem analyze_open_bands:
  "analyze lib g rgb =
     (if openBandsPass lib g rgb then Some (Spectra lib (rgbNumberToHex rgb)) else None)"
  by (simp add: analyze_def openBandsPass_def between_def Let_def)

lemma sample_hex:
  "rgbNumberToHex 0 = ''#000000''"
  "rgbNumberToHex 1052688 = ''#101010''"
  "rgbNumberToHex 4210752 = ''#404040''"
  "rgbNumberToHex 8421504 = ''#808080''"
  by (simp_all add: rgbNumberToHex_def toString16_def toString16_nat.simps padHex.simps
        hexDigit_def)

lemma sample_parse:
  "sampleParse ''#000000'' = 0"
  "sampleParse ''#101010'' = 1052688"
  "sampleParse ''#404040'' = 4210752"
  "sampleParse ''#808080'' = 8421504"
  "sampleParse ''#ffffff'' = 16777215"
  by (simp_all add: sampleParse_def sampleHexValue_def)

text \<open>
  With the base colours \<open>#404040\<close> and \<open>#808080\<close>, the colour \<open>#808080\<close> has exactly the
  smallest Delta E to white and the largest luma of the base colours: it passes the closed
  bands and \<open>analyze\<close> rejects it. A contrast ratio of exactly 3 or 21 fails the first test.
\<close>

theorem analyze_closed_bands_counterexample:
  "(case statistics sampleLib [4210752, 8421504] of
      Inl e \<Rightarrow> False
    | Inr (m, g) \<Rightarrow> closedBandsPass sampleLib g 8421504 \<and> analyze sampleLib g 8421504 = None)
   \<and> \<not> between 3 3 21 None \<and> \<not> between 21 3 21 None"
  by (simp add: statistics_def calcMedian_def process_def initialGlobals_def math_median_def
        updateMinBlackDeltaE_def updateMinWhiteDeltaE_def updateLuma_def Let_def
        analyze_def between_def closedBandsPass_def
        sampleLib_def sample_hex sample_parse sampleLuma_def sampleContrast_def
        deltaE_def toLab_def white_def black_def)

section \<open>The statistics pass\<close>

lemma math_median_total:
  assumes "xs \<noteq> []"
  shows "\<exists>m. math_median xs = Inr m"
proof (cases "odd (length xs)")
  case True
  with assms have "math_median xs = Inr (sort xs ! (length xs div 2))"
    by (simp add: math_median_def Let_def)
  then show ?thesis by (rule exI)
next
  case False
  with assms have
    "math_median xs = Inr ((sort xs ! (length xs div 2 - 1) + sort xs ! (length xs div 2)) / 2)"
    by (simp add: math_median_def Let_def)
  then show ?thesis by (rule exI)
qed

lemma mapE_total:
  "(\<And>x. x \<in> set xs \<Longrightarrow> \<exists>y. f x = Inr y) \<Longrightarrow> \<exists>ys. mapE f xs = Inr ys \<and> length ys = length xs"
proof (induction xs)
  case Nil
  show ?case by simp
next
  case (Cons x xs)
  obtain y where y: "f x = Inr y" using Cons.prems [of x] by auto
  obtain ys where ys: "mapE f xs = Inr ys" "length ys = length xs"
    using Cons.IH Cons.prems by auto
  show ?case by (simp add: y ys)
qed

lemma dom_initial_fold:
  "dom (fold (\<lambda>color m. m(hex lib color \<mapsto> Map.empty)) cs m0) = dom m0 \<union> hex lib ` set cs"
  by (induction cs arbitrary: m0) auto

lemma dom_initialGlobals:
  "dom (baseColorsData (initialGlobals lib baseColors)) = hex lib ` set baseColors"
  by (simp add: initialGlobals_def dom_initial_fold)

lemma tableFree_updates:
  "tableFree updateMinBlackDeltaE" "tableFree updateMinWhiteDeltaE" "tableFree updateLuma"
  by (simp_all add: tableFree_def updateMinBlackDeltaE_def updateMinWhiteDeltaE_def
        updateLuma_def Let_def)

lemma fold_tableFree:
  "tableFree upd \<Longrightarrow>
   fold (\<lambda>c. upd (f c)) cs (g\<lparr>baseColorsData := D\<rparr>) = (fold (\<lambda>c. upd (f c)) cs g)\<lparr>baseColorsData := D\<rparr>"
  by (induction cs arbitrary: g) (simp_all add: tableFree_def)

lemma baseColorsData_tableFree:
  assumes "tableFree upd"
  shows "baseColorsData (upd v g) = baseColorsData g"
proof -
  have "upd v (g\<lparr>baseColorsData := baseColorsData g\<rparr>) = (upd v g)\<lparr>baseColorsData := baseColorsData g\<rparr>"
    using assms unfolding tableFree_def by blast
  then have "upd v g = (upd v g)\<lparr>baseColorsData := baseColorsData g\<rparr>" by simp
  then have "baseColorsData (upd v g) = baseColorsData ((upd v g)\<lparr>baseColorsData := baseColorsData g\<rparr>)"
    by simp
  then show ?thesis by simp
qed

lemma process_result:
  assumes k: "toString lib c \<in> dom (baseColorsData g)" and tf: "tableFree upd"
  shows "\<exists>D. process lib metric f (Some upd) c g =
           Inr (f c, (if tracked lib c then upd (f c) g else g)\<lparr>baseColorsData := D\<rparr>)
         \<and> dom D = dom (baseColorsData g)"
proof -
  obtain entry where e: "baseColorsData g (toString lib c) = Some entry"
    using k by auto
  let ?D = "(baseColorsData g)(toString lib c \<mapsto> entry(metric \<mapsto> f c))"
  have d: "dom ?D = dom (baseColorsData g)"
    using k by auto
  have "process lib metric f (Some upd) c g =
          Inr (f c, (if tracked lib c then upd (f c) g else g)\<lparr>baseColorsData := ?D\<rparr>)"
    using e by (simp add: process_def Let_def tracked_def baseColorsData_tableFree [OF tf])
  with d show ?thesis by blast
qed

lemma mapProcess_result:
  assumes "toString lib ` set cs \<subseteq> dom (baseColorsData g)" and tf: "tableFree upd"
  shows "\<exists>D. mapProcess (process lib metric f (Some upd)) cs g =
           Inr (map f cs, (fold (\<lambda>c. upd (f c)) (filter (tracked lib) cs) g)\<lparr>baseColorsData := D\<rparr>)
         \<and> dom D = dom (baseColorsData g)"
  using assms(1)
proof (induction cs arbitrary: g)
  case Nil
  have "g = g\<lparr>baseColorsData := baseColorsData g\<rparr>" by simp
  then show ?case by (metis mapProcess.simps(1) list.simps(8) filter.simps(1) fold_simps(1))
next
  case (Cons c cs)
  let ?g1 = "if tracked lib c then upd (f c) g else g"
  from Cons.prems have k: "toString lib c \<in> dom (baseColorsData g)" by auto
  obtain D1 where p: "process lib metric f (Some upd) c g = Inr (f c, ?g1\<lparr>baseColorsData := D1\<rparr>)"
    and d1: "dom D1 = dom (baseColorsData g)"
    using process_result [OF k tf] by blast
  have "toString lib ` set cs \<subseteq> dom (baseColorsData (?g1\<lparr>baseColorsData := D1\<rparr>))"
    using Cons.prems d1 by auto
  from Cons.IH [OF this] obtain D where
    m: "mapProcess (process lib metric f (Some upd)) cs (?g1\<lparr>baseColorsData := D1\<rparr>) =
          Inr (map f cs, (fold (\<lambda>c. upd (f c)) (filter (tracked lib) cs)
                 (?g1\<lparr>baseColorsData := D1\<rparr>))\<lparr>baseColorsData := D\<rparr>)"
    and d: "dom D = dom D1"
    by auto
  have "mapProcess (process lib metric f (Some upd)) (c # cs) g =
     Inr (map f (c # cs), (fold (\<lambda>c. upd (f c)) (filter (tracked lib) (c # cs)) g)\<lparr>baseColorsData := D\<rparr>)"
    by (simp add: p m fold_tableFree [OF tf])
  with d d1 show ?case by (metis)
qed


lemma calcMedian_result:
  assumes ne: "cs \<noteq> []" and keys: "toString lib ` set cs \<subseteq> dom (baseColorsData g)"
    and tf: "tableFree upd"
  shows "\<exists>m D. calcMedian (process lib metric f (Some upd)) cs g =
             Inr (m, (fold (\<lambda>c. upd (f c)) (filter (tracked lib) cs) g)\<lparr>baseColorsData := D\<rparr>)
           \<and> math_median (map f cs) = Inr m \<and> dom D = dom (baseColorsData g)"
proof -
  obtain D where m: "mapProcess (process lib metric f (Some upd)) cs g =
      Inr (map f cs, (fold (\<lambda>c. upd (f c)) (filter (tracked lib) cs) g)\<lparr>baseColorsData := D\<rparr>)"
    and d: "dom D = dom (baseColorsData g)"
    using mapProcess_result [OF keys tf] by blast
  from ne have "map f cs \<noteq> []" by simp
  then obtain med where med: "math_median (map f cs) = Inr med"
    using math_median_total by blast
  have "calcMedian (process lib metric f (Some upd)) cs g =
          Inr (med, (fold (\<lambda>c. upd (f c)) (filter (tracked lib) cs) g)\<lparr>baseColorsData := D\<rparr>)"
    by (simp add: calcMedian_def m med)
  with med d show ?thesis by blast
qed

lemma Min_insert_min:
  "finite S \<Longrightarrow> Min (insert (min a b) S) = Min (insert a (insert b S))" for a :: real
  by (cases "S = {}") (simp_all add: min.assoc)

lemma Max_insert_max:
  "finite S \<Longrightarrow> Max (insert (max a b) S) = Max (insert a (insert b S))" for a :: real
  by (cases "S = {}") (simp_all add: max.assoc)

lemma fold_updateMinBlackDeltaE:
  "refMinBlackDeltaE (fold (\<lambda>c. updateMinBlackDeltaE (f c)) cs g) =
     Min (insert (refMinBlackDeltaE g) (f ` set cs))"
proof (induction cs arbitrary: g)
  case Nil
  show ?case by simp
next
  case (Cons c cs)
  have "refMinBlackDeltaE (updateMinBlackDeltaE (f c) g) = min (refMinBlackDeltaE g) (f c)"
    by (simp add: updateMinBlackDeltaE_def min_def)
  then show ?case
    by (simp add: Cons.IH Min_insert_min)
qed

lemma fold_updateMinWhiteDeltaE:
  "refMinWhiteDeltaE (fold (\<lambda>c. updateMinWhiteDeltaE (f c)) cs g) =
     Min (insert (refMinWhiteDeltaE g) (f ` set cs))"
proof (induction cs arbitrary: g)
  case Nil
  show ?case by simp
next
  case (Cons c cs)
  have "refMinWhiteDeltaE (updateMinWhiteDeltaE (f c) g) = min (refMinWhiteDeltaE g) (f c)"
    by (simp add: updateMinWhiteDeltaE_def min_def)
  then show ?case
    by (simp add: Cons.IH Min_insert_min)
qed

lemma fold_updateLuma_min:
  "refMinLuma (fold (\<lambda>c. updateLuma (f c)) cs g) = Min (insert (refMinLuma g) (f ` set cs))"
proof (induction cs arbitrary: g)
  case Nil
  show ?case by simp
next
  case (Cons c cs)
  have "refMinLuma (updateLuma (f c) g) = min (refMinLuma g) (f c)"
    by (simp add: updateLuma_def Let_def min_def)
  then show ?case
    by (simp add: Cons.IH Min_insert_min)
qed

lemma fold_updateLuma_max:
  "refMaxLuma (fold (\<lambda>c. updateLuma (f c)) cs g) = Max (insert (refMaxLuma g) (f ` set cs))"
proof (induction cs arbitrary: g)
  case Nil
  show ?case by simp
next
  case (Cons c cs)
  have "refMaxLuma (updateLuma (f c) g) = max (refMaxLuma g) (f c)"
    by (simp add: updateLuma_def Let_def max_def)
  then show ?case
    by (simp add: Cons.IH Max_insert_max)
qed

text \<open>What an update callback leaves alone.\<close>

lemma fold_updateMinWhiteDeltaE_frame:
  "refMinBlackDeltaE (fold (\<lambda>c. updateMinWhiteDeltaE (f c)) cs g) = refMinBlackDeltaE g"
  by (induction cs arbitrary: g) (simp_all add: updateMinWhiteDeltaE_def)

lemma fold_updateLuma_frame:
  "refMinBlackDeltaE (fold (\<lambda>c. updateLuma (f c)) cs g) = refMinBlackDeltaE g"
  "refMinWhiteDeltaE (fold (\<lambda>c. updateLuma (f c)) cs g) = refMinWhiteDeltaE g"
  by (induction cs arbitrary: g) (simp_all add: updateLuma_def Let_def)

lemma fold_updateMinBlackDeltaE_frame:
  "refMinWhiteDeltaE (fold (\<lambda>c. updateMinBlackDeltaE (f c)) cs g) = refMinWhiteDeltaE g"
  "refMinLuma (fold (\<lambda>c. updateMinBlackDeltaE (f c)) cs g) = refMinLuma g"
  "refMaxLuma (fold (\<lambda>c. updateMinBlackDeltaE (f c)) cs g) = refMaxLuma g"
  by (induction cs arbitrary: g) (simp_all add: updateMinBlackDeltaE_def)

lemma fold_updateMinWhiteDeltaE_frame2:
  "refMinLuma (fold (\<lambda>c. updateMinWhiteDeltaE (f c)) cs g) = refMinLuma g"
  "refMaxLuma (fold (\<lambda>c. updateMinWhiteDeltaE (f c)) cs g) = refMaxLuma g"
  by (induction cs arbitrary: g) (simp_all add: updateMinWhiteDeltaE_def)

text \<open>
  Claim C4, as the program has it. On a non-empty base list whose colours convert to their hex
  codes as property keys, the pass succeeds; the three medians are taken over the values of
  all base colours, and each running bound is the minimum (for \<open>refMaxLuma\<close> the maximum) of
  its initial value (100, 100, 255, 0) and the values of the base colours other than pure
  black and pure white.
\<close>

theorem statistics_running_bounds:
  assumes ne: "baseColors \<noteq> []"
    and keys: "\<forall>c\<in>set baseColors. toString lib c = hex lib c"
  shows "\<exists>rb rw rl g.
     statistics lib baseColors = Inr ((rb, rw, rl), g) \<and>
     math_median (map (\<lambda>c. deltaE lib c (black lib)) baseColors) = Inr rb \<and>
     math_median (map (\<lambda>c. deltaE lib c (white lib)) baseColors) = Inr rw \<and>
     math_median (map (luma lib) baseColors) = Inr rl \<and>
     refMinBlackDeltaE g =
       Min (insert 100 ((\<lambda>c. deltaE lib c (black lib)) ` {c \<in> set baseColors. tracked lib c})) \<and>
     refMinWhiteDeltaE g =
       Min (insert 100 ((\<lambda>c. deltaE lib c (white lib)) ` {c \<in> set baseColors. tracked lib c})) \<and>
     refMinLuma g = Min (insert 255 (luma lib ` {c \<in> set baseColors. tracked lib c})) \<and>
     refMaxLuma g = Max (insert 0 (luma lib ` {c \<in> set baseColors. tracked lib c}))"
proof -
  let ?g0 = "initialGlobals lib baseColors"
  let ?T = "filter (tracked lib) baseColors"
  let ?fb = "\<lambda>c. deltaE lib c (black lib)"
  let ?fw = "\<lambda>c. deltaE lib c (white lib)"
  have T: "set ?T = {c \<in> set baseColors. tracked lib c}" by auto
  have k0: "toString lib ` set baseColors \<subseteq> dom (baseColorsData ?g0)"
    using keys by (auto simp add: dom_initialGlobals)
  obtain rb D1 where
    s1: "calcMedian (process lib ''blackDeltaE'' ?fb (Some updateMinBlackDeltaE)) baseColors ?g0 =
           Inr (rb, (fold (\<lambda>c. updateMinBlackDeltaE (?fb c)) ?T ?g0)\<lparr>baseColorsData := D1\<rparr>)"
    and m1: "math_median (map ?fb baseColors) = Inr rb"
    and d1: "dom D1 = dom (baseColorsData ?g0)"
    using calcMedian_result [OF ne k0 tableFree_updates(1)] by blast
  let ?g1 = "(fold (\<lambda>c. updateMinBlackDeltaE (?fb c)) ?T ?g0)\<lparr>baseColorsData := D1\<rparr>"
  have k1: "toString lib ` set baseColors \<subseteq> dom (baseColorsData ?g1)"
    using k0 d1 by simp
  obtain rw D2 where
    s2: "calcMedian (process lib ''whiteDeltaE'' ?fw (Some updateMinWhiteDeltaE)) baseColors ?g1 =
           Inr (rw, (fold (\<lambda>c. updateMinWhiteDeltaE (?fw c)) ?T ?g1)\<lparr>baseColorsData := D2\<rparr>)"
    and m2: "math_median (map ?fw baseColors) = Inr rw"
    and d2: "dom D2 = dom (baseColorsData ?g1)"
    using calcMedian_result [OF ne k1 tableFree_updates(2)] by blast
  let ?g2 = "(fold (\<lambda>c. updateMinWhiteDeltaE (?fw c)) ?T ?g1)\<lparr>baseColorsData := D2\<rparr>"
  have "\<And>color. color \<in> set baseColors \<Longrightarrow>
          \<exists>y. math_median (map (\<lambda>baseColor. deltaE lib color baseColor) baseColors) = Inr y"
    using ne by (intro math_median_total) simp
  then obtain medians where
    s3: "mapE (\<lambda>color. math_median (map (\<lambda>baseColor. deltaE lib color baseColor) baseColors))
           baseColors = Inr medians"
    and l3: "length medians = length baseColors"
    using mapE_total [of baseColors
      "\<lambda>color. math_median (map (\<lambda>baseColor. deltaE lib color baseColor) baseColors)"]
    by blast
  from l3 ne have "medians \<noteq> []" by auto
  then obtain d where s4: "math_median medians = Inr d"
    using math_median_total by blast
  let ?g2d = "?g2\<lparr>refDeltaE := d\<rparr>"
  have k2: "toString lib ` set baseColors \<subseteq> dom (baseColorsData ?g2d)"
    using k1 d2 by simp
  obtain rl D3 where
    s5: "calcMedian (process lib ''luma'' (luma lib) (Some updateLuma)) baseColors ?g2d =
           Inr (rl, (fold (\<lambda>c. updateLuma (luma lib c)) ?T ?g2d)\<lparr>baseColorsData := D3\<rparr>)"
    and m5: "math_median (map (luma lib) baseColors) = Inr rl"
    using calcMedian_result [OF ne k2 tableFree_updates(3)] by blast
  let ?g3 = "(fold (\<lambda>c. updateLuma (luma lib c)) ?T ?g2d)\<lparr>baseColorsData := D3\<rparr>"
  have st: "statistics lib baseColors = Inr ((rb, rw, rl), ?g3)"
    unfolding statistics_def by (simp only: s1 s2 s3 s4 s5 sum.case prod.case)
  have b: "refMinBlackDeltaE ?g3 = Min (insert 100 (?fb ` set ?T))"
    by (simp add: fold_updateLuma_frame fold_tableFree [OF tableFree_updates(2)]
          fold_tableFree [OF tableFree_updates(3)]
          fold_updateMinWhiteDeltaE_frame fold_updateMinBlackDeltaE initialGlobals_def)
  have w: "refMinWhiteDeltaE ?g3 = Min (insert 100 (?fw ` set ?T))"
    by (simp add: fold_updateLuma_frame fold_tableFree [OF tableFree_updates(2)]
          fold_tableFree [OF tableFree_updates(3)]
          fold_updateMinWhiteDeltaE fold_updateMinBlackDeltaE_frame initialGlobals_def)
  have lmin: "refMinLuma ?g3 = Min (insert 255 (luma lib ` set ?T))"
    by (simp add: fold_updateLuma_min fold_tableFree [OF tableFree_updates(2)]
          fold_tableFree [OF tableFree_updates(3)]
          fold_updateMinWhiteDeltaE_frame2 fold_updateMinBlackDeltaE_frame initialGlobals_def)
  have lmax: "refMaxLuma ?g3 = Max (insert 0 (luma lib ` set ?T))"
    by (simp add: fold_updateLuma_max fold_tableFree [OF tableFree_updates(2)]
          fold_tableFree [OF tableFree_updates(3)]
          fold_updateMinWhiteDeltaE_frame2 fold_updateMinBlackDeltaE_frame initialGlobals_def)
  show ?thesis
    using st m1 m2 m5 b w lmin lmax unfolding T by blast
qed


theorem statistics_running_bounds_witness:
  "\<exists>rb rw rl g.
     statistics sampleLib [4210752, 8421504] = Inr ((rb, rw, rl), g) \<and>
     math_median (map (\<lambda>c. deltaE sampleLib c (black sampleLib)) [4210752, 8421504]) = Inr rb \<and>
     math_median (map (\<lambda>c. deltaE sampleLib c (white sampleLib)) [4210752, 8421504]) = Inr rw \<and>
     math_median (map (luma sampleLib) [4210752, 8421504]) = Inr rl \<and>
     refMinBlackDeltaE g =
       Min (insert 100 ((\<lambda>c. deltaE sampleLib c (black sampleLib)) `
              {c \<in> set [4210752, 8421504]. tracked sampleLib c})) \<and>
     refMinWhiteDeltaE g =
       Min (insert 100 ((\<lambda>c. deltaE sampleLib c (white sampleLib)) `
              {c \<in> set [4210752, 8421504]. tracked sampleLib c})) \<and>
     refMinLuma g = Min (insert 255 (luma sampleLib ` {c \<in> set [4210752, 8421504]. tracked sampleLib c})) \<and>
     refMaxLuma g = Max (insert 0 (luma sampleLib ` {c \<in> set [4210752, 8421504]. tracked sampleLib c}))"
proof -
  have ne: "[4210752, 8421504 :: int] \<noteq> []" by simp
  have keys: "\<forall>c\<in>set [4210752, 8421504 :: int]. toString sampleLib c = hex sampleLib c"
    by (simp add: sampleLib_def)
  show ?thesis by (rule statistics_running_bounds [OF ne keys])
qed

text \<open>
  With pure black among the base colours, the running minimum of the Delta E to black stays
  above the Delta E of black to itself.
\<close>

theorem statistics_all_colours_counterexample:
  "(case statistics sampleLib [0, 4210752] of
      Inl e \<Rightarrow> False
    | Inr (m, g) \<Rightarrow> deltaE sampleLib 0 (black sampleLib) < refMinBlackDeltaE g)"
  by (simp add: statistics_def calcMedian_def process_def initialGlobals_def math_median_def
        updateMinBlackDeltaE_def updateMinWhiteDeltaE_def updateLuma_def Let_def
        sampleLib_def sample_hex sample_parse sampleLuma_def deltaE_def toLab_def
        white_def black_def)

section \<open>The adaptive threshold and the distance filter\<close>

lemma fold_min_Min: "fold min xs (a::real) = Min (insert a (set xs))"
proof (induction xs arbitrary: a)
  case Nil
  show ?case by simp
next
  case (Cons x xs)
  have "fold min (x # xs) a = Min (insert (min x a) (set xs))"
    by (simp add: Cons.IH)
  also have "\<dots> = Min (insert x (insert a (set xs)))"
    by (rule Min_insert_min) simp
  finally show ?case by (simp add: insert_commute)
qed

lemma math_min_Min: "xs \<noteq> [] \<Longrightarrow> math_min xs = Inr (Min (set xs))"
  by (cases xs) (simp_all add: math_min_def fold_min_Min)

lemma mapE_Inr: "(\<And>x. x \<in> set xs \<Longrightarrow> f x = Inr (h x)) \<Longrightarrow> mapE f xs = Inr (map h xs)"
  by (induction xs) simp_all

lemma adjustDelta_eq:
  assumes "ref \<noteq> []"
  shows "adjustDelta lib source ref =
           math_median (map (\<lambda>color. Min (deltaE lib color ` set ref)) source)"
proof -
  have "mapE (\<lambda>color. math_min (map (\<lambda>refColor. deltaE lib color refColor) ref)) source =
          Inr (map (\<lambda>color. Min (deltaE lib color ` set ref)) source)"
    using assms by (intro mapE_Inr) (simp add: math_min_Min)
  then show ?thesis by (simp add: adjustDelta_def)
qed

text \<open>
  Claim C8. For a non-empty source and a non-empty reference, \<open>adjustDelta\<close> returns a
  number: the median, over the source, of the least Delta E to a reference colour. On the
  two one-element lists of one colour \<open>c\<close> it returns the Delta E of \<open>c\<close> to itself, which is 0
  when the library gives identical colours the distance 0.
\<close>

theorem adjustDelta_median_of_min:
  assumes "source \<noteq> []" and "ref \<noteq> []"
  shows "adjustDelta lib source ref =
           math_median (map (\<lambda>color. Min (deltaE lib color ` set ref)) source)
         \<and> (\<exists>d. adjustDelta lib source ref = Inr d)
         \<and> adjustDelta lib [c] [c] = Inr (deltaE lib c c)
         \<and> (deltaE lib c c = 0 \<longrightarrow> adjustDelta lib [c] [c] = Inr 0)"
proof -
  have 1: "adjustDelta lib source ref =
           math_median (map (\<lambda>color. Min (deltaE lib color ` set ref)) source)"
    using assms(2) by (rule adjustDelta_eq)
  have "map (\<lambda>color. Min (deltaE lib color ` set ref)) source \<noteq> []"
    using assms(1) by simp
  then have 2: "\<exists>d. adjustDelta lib source ref = Inr d"
    unfolding 1 by (rule math_median_total)
  have 3: "adjustDelta lib [c] [c] = Inr (deltaE lib c c)"
    by (simp add: adjustDelta_def math_min_def math_median_def)
  from 1 2 3 show ?thesis by simp
qed

theorem adjustDelta_median_of_min_witness:
  "adjustDelta sampleLib [4210752] [4210752] = Inr 0 \<and>
   adjustDelta sampleLib [4210752, 8421504] [0, 4210752] =
     math_median (map (\<lambda>color. Min (deltaE sampleLib color ` set [0, 4210752])) [4210752, 8421504])"
proof -
  have z: "deltaE sampleLib 4210752 4210752 = 0"
    by (simp add: deltaE_def sampleLib_def)
  show ?thesis
    using adjustDelta_median_of_min [of "[4210752, 8421504]" "[0, 4210752]" sampleLib 4210752] z
    by simp
qed

text \<open>
  Claim C10, as the program has it. A threshold of 0 is replaced by \<open>refDeltaE\<close>: the filter
  then accepts a colour exactly when no colour of the array has a Delta E below \<open>refDeltaE\<close>
  to it.
\<close>

theorem hasGoodDeltaAll_zero_threshold:
  "hasGoodDeltaAll lib g color arr 0 = hasGoodDeltaAll lib g color arr (refDeltaE g) \<and>
   hasGoodDeltaAll lib g color arr 0 =
     (\<forall>otherColor \<in> set arr. \<not> deltaE lib color otherColor < refDeltaE g)"
  by (simp add: hasGoodDeltaAll_def list_ex_iff)

theorem hasGoodDeltaAll_zero_threshold_witness:
  "(case statistics sampleLib [4210752, 8421504] of
      Inl e \<Rightarrow> False
    | Inr (m, g) \<Rightarrow> refDeltaE g = 640 / 51 \<and> \<not> hasGoodDeltaAll sampleLib g 4210752 [4210752, 8421504] 0)"
proof -
  have "(case statistics sampleLib [4210752, 8421504] of
      Inl e \<Rightarrow> False
    | Inr (m, g) \<Rightarrow> refDeltaE g = 640 / 51 \<and> deltaE sampleLib 4210752 4210752 < refDeltaE g)"
  by (simp add: statistics_def calcMedian_def process_def initialGlobals_def math_median_def
        updateMinBlackDeltaE_def updateMinWhiteDeltaE_def updateLuma_def Let_def
        sampleLib_def sample_hex sample_parse sampleLuma_def deltaE_def toLab_def
        white_def black_def)
  then show ?thesis
    using hasGoodDeltaAll_zero_threshold [of sampleLib _ 4210752 "[4210752, 8421504]"]
    by (auto split: sum.splits)
qed

text \<open>
  With a single base colour the default \<open>refDeltaE\<close> is itself 0, and the filter with a zero
  threshold accepts a colour that is in the array.
\<close>

theorem hasGoodDeltaAll_zero_default_counterexample:
  "(case statistics sampleLib [4210752] of
      Inl e \<Rightarrow> False
    | Inr (m, g) \<Rightarrow> refDeltaE g = 0 \<and> hasGoodDeltaAll sampleLib g 4210752 [4210752] 0)"
  by (simp add: statistics_def calcMedian_def process_def initialGlobals_def math_median_def
        updateMinBlackDeltaE_def updateMinWhiteDeltaE_def updateLuma_def Let_def
        hasGoodDeltaAll_def
        sampleLib_def sample_hex sample_parse sampleLuma_def deltaE_def toLab_def
        white_def black_def)

section \<open>The cache\<close>

text \<open>
  Claim C9. After a call of \<open>memoize\<close> that returned, the cache file of the identifier exists,
  and a second call with the same identifier returns the colours built from the stored
  fields whatever the compute function and its arguments are (it is not called: one that
  throws changes nothing), and leaves the files as they are. The hex codes of the returned
  colours are those of the first result, in the same order, provided the library builds from
  the stored field of a colour a colour of the same hex code.
\<close>

theorem memoize_round_trip:
  assumes first: "memoize lib fs ident callback args = Inr (result, fs')"
    and contract: "\<forall>color \<in> set result. hex lib (Spectra lib (jsonColor lib color)) = hex lib color"
  shows "\<exists>stored. fs' (cachePath ident) = Some stored \<and>
           memoize lib fs' ident callback' args' = Inr (map (Spectra lib) stored, fs') \<and>
           map (hex lib) (map (Spectra lib) stored) = map (hex lib) result"
proof (cases "fs (cachePath ident)")
  case (Some loaded)
  with first have "result = map (Spectra lib) loaded" "fs' = fs"
    by (simp_all add: memoize_def)
  with Some show ?thesis by (simp add: memoize_def)
next
  case None
  with first obtain r where r: "callback args = Inr r"
    by (cases "callback args") (simp_all add: memoize_def)
  with None first have res: "result = r" "fs' = fs(cachePath ident \<mapsto> map (jsonColor lib) r)"
    by (auto simp add: memoize_def)
  have "map (hex lib) (map (Spectra lib) (map (jsonColor lib) result)) = map (hex lib) result"
    using contract by simp
  with res show ?thesis by (simp add: memoize_def)
qed

theorem memoize_round_trip_witness:
  "memoize sampleLib Map.empty ''base-colors-first'' (\<lambda>u::unit. Inr [4210752, 8421504]) () =
     Inr ([4210752, 8421504], [cachePath ''base-colors-first'' \<mapsto> [''#404040'', ''#808080'']])
   \<and> memoize sampleLib [cachePath ''base-colors-first'' \<mapsto> [''#404040'', ''#808080'']]
        ''base-colors-first'' (\<lambda>u::unit. Inl TypeError) () =
     Inr ([4210752, 8421504], [cachePath ''base-colors-first'' \<mapsto> [''#404040'', ''#808080'']])"
proof -
  let ?fs' = "[cachePath ''base-colors-first'' \<mapsto> [''#404040'', ''#808080'']]"
  have first: "memoize sampleLib Map.empty ''base-colors-first'' (\<lambda>u::unit. Inr [4210752, 8421504]) () =
     Inr ([4210752, 8421504], ?fs')"
    by (simp add: memoize_def sampleLib_def sample_hex)
  have contract: "\<forall>color \<in> set [4210752, 8421504].
      hex sampleLib (Spectra sampleLib (jsonColor sampleLib color)) = hex sampleLib color"
    by (simp add: sampleLib_def sample_hex sample_parse)
  from memoize_round_trip [OF first contract, of "\<lambda>u::unit. Inl TypeError" "()"]
  have "memoize sampleLib ?fs' ''base-colors-first'' (\<lambda>u::unit. Inl TypeError) () =
     Inr (map (Spectra sampleLib) [''#404040'', ''#808080''], ?fs')"
    by simp
  then show ?thesis
    using first by (simp add: sampleLib_def sample_parse)
qed


section \<open>The order of hex codes\<close>

lemma hexDigit_code:
  assumes "i < 16"
  shows "(of_char (hexDigit i) :: nat) = (if i < 10 then 48 + i else 87 + i)"
proof -
  have "list_all (\<lambda>d. (of_char (hexDigit d) :: nat) = (if d < 10 then 48 + d else 87 + d))
          [0..<16]"
    by (simp add: upt_conv_Cons hexDigit_def)
  moreover from assms have "i \<in> set [0..<16]" by simp
  ultimately show ?thesis unfolding list_all_iff by blast
qed

lemma hexDigit_mono: "i < j \<Longrightarrow> j < 16 \<Longrightarrow> hexDigit i < hexDigit j"
  by (simp add: less_char_def hexDigit_code)

lemma length_fixedHex: "length (fixedHex k n) = k"
  by (induction k arbitrary: n) simp_all

lemma fixedHex_mono: "a < b \<Longrightarrow> b < 16 ^ k \<Longrightarrow> fixedHex k a < fixedHex k b"
proof (induction k arbitrary: a b)
  case 0
  then show ?case by simp
next
  case (Suc k)
  have le: "a div 16 \<le> b div 16" using Suc.prems(1) by (simp add: div_le_mono)
  have bk: "b div 16 < 16 ^ k" using Suc.prems(2) by (simp add: less_mult_imp_div_less mult.commute)
  show ?case
  proof (cases "a div 16 < b div 16")
    case True
    from Suc.IH [OF True bk] have "(fixedHex k (a div 16), fixedHex k (b div 16)) \<in> lexord {(u, v). u < v}"
      by (simp add: list_less_def)
    then have "(fixedHex k (a div 16) @ [hexDigit (a mod 16)],
                fixedHex k (b div 16) @ [hexDigit (b mod 16)]) \<in> lexord {(u, v). u < v}"
      by (rule lexord_sufI) (simp add: length_fixedHex)
    then show ?thesis by (simp add: list_less_def)
  next
    case False
    with le have eq: "a div 16 = b div 16" by simp
    have "a mod 16 < b mod 16"
      using Suc.prems(1) eq div_mult_mod_eq [of a 16] div_mult_mod_eq [of b 16] by linarith
    then have "hexDigit (a mod 16) < hexDigit (b mod 16)"
      by (rule hexDigit_mono) simp
    then have "([hexDigit (a mod 16)], [hexDigit (b mod 16)]) \<in> lexord {(u, v). u < v}"
      by simp
    then have "(fixedHex k (b div 16) @ [hexDigit (a mod 16)],
                fixedHex k (b div 16) @ [hexDigit (b mod 16)]) \<in> lexord {(u, v). u < v}"
      by (rule lexord_append_leftI)
    then show ?thesis by (simp add: list_less_def eq)
  qed
qed

lemma fixedHex_zero: "fixedHex k 0 = replicate k (CHR ''0'')"
  by (induction k) (simp_all add: hexDigit_def replicate_append_same)

lemma padHex_replicate: "padHex h = replicate (6 - length h) (CHR ''0'') @ h"
proof (induction h rule: padHex.induct)
  case (1 h)
  show ?case
  proof (cases "length h < 6")
    case True
    then have "padHex h = padHex (CHR ''0'' # h)" by (simp add: padHex.simps [of h])
    also have "\<dots> = replicate (6 - length (CHR ''0'' # h)) (CHR ''0'') @ CHR ''0'' # h"
      using "1.IH" [OF True] .
    also have "\<dots> = replicate (6 - length h) (CHR ''0'') @ h"
      using True by (simp add: replicate_app_Cons_same Suc_diff_Suc flip: replicate_Suc)
    finally show ?thesis .
  next
    case False
    then show ?thesis by (simp add: padHex.simps [of h])
  qed
qed

lemma toString16_nat_fixed:
  "n < 16 ^ Suc k \<Longrightarrow>
   length (toString16_nat n) \<le> Suc k \<and>
   replicate (Suc k - length (toString16_nat n)) (CHR ''0'') @ toString16_nat n = fixedHex (Suc k) n"
proof (induction k arbitrary: n)
  case 0
  then have "n < 16" by simp
  then show ?case by (simp add: toString16_nat.simps [of n])
next
  case (Suc k)
  show ?case
  proof (cases "n < 16")
    case True
    then show ?thesis
      by (simp add: toString16_nat.simps [of n] fixedHex_zero replicate_append_same)
  next
    case False
    have "n div 16 < 16 ^ Suc k"
      using Suc.prems by (simp add: less_mult_imp_div_less mult.commute)
    from Suc.IH [OF this] have
      l: "length (toString16_nat (n div 16)) \<le> Suc k" and
      r: "replicate (Suc k - length (toString16_nat (n div 16))) (CHR ''0'') @ toString16_nat (n div 16)
            = fixedHex (Suc k) (n div 16)"
      by simp_all
    have t: "toString16_nat n = toString16_nat (n div 16) @ [hexDigit (n mod 16)]"
      using False by (simp add: toString16_nat.simps [of n])
    have "fixedHex (Suc (Suc k)) n = fixedHex (Suc k) (n div 16) @ [hexDigit (n mod 16)]"
      by simp
    also have "\<dots> = replicate (Suc k - length (toString16_nat (n div 16))) (CHR ''0'') @ toString16_nat n"
      by (simp only: r [symmetric] t append_assoc)
    finally show ?thesis using l by (simp add: t)
  qed
qed

lemma rgbNumberToHex_fixed:
  assumes "0 \<le> n" and "n < 2 ^ 24"
  shows "rgbNumberToHex n = CHR ''#'' # fixedHex 6 (nat n)"
proof -
  have "nat n < 16 ^ Suc 5" using assms by simp
  from toString16_nat_fixed [OF this] have
    "replicate (6 - length (toString16_nat (nat n))) (CHR ''0'') @ toString16_nat (nat n) = fixedHex 6 (nat n)"
    by simp
  then show ?thesis
    using assms by (simp add: rgbNumberToHex_def toString16_def padHex_replicate)
qed

lemma rgbNumberToHex_mono:
  assumes "0 \<le> a" and "a < b" and "b < 2 ^ 24"
  shows "rgbNumberToHex a < rgbNumberToHex b"
proof -
  have "nat a < nat b" "nat b < 16 ^ 6" using assms by simp_all
  then have "fixedHex 6 (nat a) < fixedHex 6 (nat b)" by (rule fixedHex_mono)
  then show ?thesis using assms by (simp add: rgbNumberToHex_fixed)
qed

section \<open>The consolidator\<close>

lemma sorted_by_rgb:
  assumes "\<forall>color\<in>set arr. toString lib color = rgbNumberToHex (rgbNumber lib color) \<and>
             0 \<le> rgbNumber lib color \<and> rgbNumber lib color < 2 ^ 24"
  shows "sorted (map (rgbNumber lib) (sort_key (toString lib) arr))"
proof -
  let ?xs = "sort_key (toString lib) arr"
  have "sorted (map (toString lib) ?xs)" by (rule sorted_sort_key)
  then have s: "sorted_wrt (\<lambda>x y. toString lib x \<le> toString lib y) ?xs"
    by (simp add: sorted_map)
  have "sorted_wrt (\<lambda>x y. rgbNumber lib x \<le> rgbNumber lib y) ?xs"
  proof (rule sorted_wrt_mono_rel [OF _ s])
    fix x y
    assume x: "x \<in> set ?xs" and y: "y \<in> set ?xs"
      and le: "toString lib x \<le> toString lib y"
    show "rgbNumber lib x \<le> rgbNumber lib y"
    proof (rule ccontr)
      assume "\<not> rgbNumber lib x \<le> rgbNumber lib y"
      then have lt: "rgbNumber lib y < rgbNumber lib x" by simp
      have "rgbNumberToHex (rgbNumber lib y) < rgbNumberToHex (rgbNumber lib x)"
        using assms x y lt by (intro rgbNumberToHex_mono) auto
      then have "toString lib y < toString lib x"
        using assms x y by simp
      with le show False by simp
    qed
  qed
  then show ?thesis by (simp add: sorted_map)
qed

text \<open>
  Claim C7. When the string of every candidate is the six-digit hex code of its RGB number
  (as \<open>rgbNumberToHex\<close> writes it), the array that the grouping loop of \<open>consolidate\<close> walks
  is the candidate list reordered by ascending RGB number.
\<close>

theorem consolidate_sorts_by_rgb:
  assumes "\<forall>color\<in>set arr. toString lib color = rgbNumberToHex (rgbNumber lib color) \<and>
             0 \<le> rgbNumber lib color \<and> rgbNumber lib color < 2 ^ 24"
  shows "sorted (map (rgbNumber lib) (sort_key (toString lib) arr)) \<and>
         mset (sort_key (toString lib) arr) = mset arr \<and>
         consolidate lib arr ref refDelta =
           representatives lib ref (fst (groupPairs lib refDelta (sort_key (toString lib) arr) [] []))"
  using sorted_by_rgb [OF assms] by (simp add: consolidate_def)

lemma sample_sort:
  "sort_key (toString sampleLib) [8421504, 1052688, 4210752] = [1052688, 4210752, 8421504]"
  by (simp add: sampleLib_def sample_hex)

theorem consolidate_sorts_by_rgb_witness:
  "sorted (map (rgbNumber sampleLib) (sort_key (toString sampleLib) [8421504, 1052688, 4210752])) \<and>
   sort_key (toString sampleLib) [8421504, 1052688, 4210752] = [1052688, 4210752, 8421504]"
proof -
  have "\<forall>color\<in>set [8421504, 1052688, 4210752].
          toString sampleLib color = rgbNumberToHex (rgbNumber sampleLib color) \<and>
          0 \<le> rgbNumber sampleLib color \<and> rgbNumber sampleLib color < 2 ^ 24"
    by (simp add: sampleLib_def)
  from consolidate_sorts_by_rgb [OF this, of "[]" 0]
  have "sorted (map (rgbNumber sampleLib) (sort_key (toString sampleLib) [8421504, 1052688, 4210752]))"
    by (rule conjunct1)
  then show ?thesis using sample_sort by (rule conjI)
qed

lemma sample_deltaE:
  "deltaE sampleLib 1052688 4210752 = 320 / 17"
  "deltaE sampleLib 4210752 8421504 = 1280 / 51"
  "deltaE sampleLib 1052688 8421504 = 2240 / 51"
  "deltaE sampleLib 4210752 0 = 1280 / 51"
  "deltaE sampleLib c c = 0"
  by (simp_all add: sampleLib_def deltaE_def toLab_def sampleLuma_def)

lemma sample_sort_pair:
  "sort_key (toString sampleLib) [8421504, 4210752] = [4210752, 8421504]"
  by (simp add: sampleLib_def sample_hex)

lemma sample_sort_triple:
  "sort_key (toString sampleLib) [1052688, 4210752, 8421504] = [1052688, 4210752, 8421504]"
  by (simp add: sampleLib_def sample_hex)

lemma sample_groups:
  "groupPairs sampleLib 5 [4210752, 8421504] [] [] = ([[4210752]], [8421504])"
  "groupPairs sampleLib 5 [1052688, 4210752, 8421504] [] [] = ([[1052688]], [4210752, 8421504])"
  by (simp_all add: sample_deltaE)

lemma sample_representative:
  "representative sampleLib [0] [4210752] = Inr 4210752"
  "representative sampleLib [1052688, 4210752, 8421504] [1052688] = Inr 1052688"
  by (simp_all add: representative_def math_median_def math_max_def elementAt_def sample_deltaE)

lemma consolidate_unfold:
  "consolidate lib arr ref refDelta =
     representatives lib ref (fst (groupPairs lib refDelta (sort_key (toString lib) arr) [] []))"
  by (simp add: consolidate_def)

text \<open>
  Claim C1 and the program. The group still open when the grouping loop ends is never pushed
  to \<open>groups\<close>, so its colours have no representative: a single candidate gives the empty
  result, and of two candidates further apart than the threshold only the first is
  represented.
\<close>

theorem consolidate_drops_open_group:
  "consolidate lib [color] ref refDelta = Inr [] \<and>
   consolidate sampleLib [8421504, 4210752] [0] 5 = Inr [4210752]"
proof
  show "consolidate lib [color] ref refDelta = Inr []"
    by (simp add: consolidate_def)
  have "consolidate sampleLib [8421504, 4210752] [0] 5 = representatives sampleLib [0] [[4210752]]"
    by (simp only: consolidate_unfold sample_sort_pair sample_groups fst_conv)
  then show "consolidate sampleLib [8421504, 4210752] [0] 5 = Inr [4210752]"
    by (simp add: sample_representative)
qed

text \<open>
  Claim C2 and the program. Three colours with all pairwise Delta E above the threshold 5:
  the loop advances by two, tests the first pair only and leaves the last two colours in the
  open group, so consolidating the set against itself returns its first colour alone.
\<close>

theorem consolidate_not_idempotent:
  "consolidate sampleLib [1052688, 4210752, 8421504] [1052688, 4210752, 8421504] 5 = Inr [1052688] \<and>
   5 < deltaE sampleLib 1052688 4210752 \<and>
   5 < deltaE sampleLib 1052688 8421504 \<and>
   5 < deltaE sampleLib 4210752 8421504"
proof -
  have "consolidate sampleLib [1052688, 4210752, 8421504] [1052688, 4210752, 8421504] 5 =
          representatives sampleLib [1052688, 4210752, 8421504] [[1052688]]"
    by (simp only: consolidate_unfold sample_sort_triple sample_groups fst_conv)
  then show ?thesis
    by (simp add: sample_representative sample_deltaE)
qed

end
